theory Spec2Isabelle
  imports Complex_Main "HOL-Library.Sublist" "HOL-Library.AList"
begin

section \<open>Server advertisements (package director, advertise.go)\<close>

text \<open>
  The struct types of package \<^verbatim>\<open>server_structs\<close> are declared outside the source files
  at hand; each record below has the fields that the director code reads or writes.

  The struct \<^verbatim>\<open>server_structs.Capabilities\<close> holds the five permission bits of a
  server or namespace. A Go \<^verbatim>\<open>bool\<close> field is a HOL \<^typ>\<open>bool\<close>; the zero value
  \<^verbatim>\<open>Capabilities{}\<close> has every bit cleared.
\<close>

record Capabilities =
  PublicReads :: bool
  Reads :: bool
  Writes :: bool
  Listings :: bool
  DirectReads :: bool

definition emptyCapabilities :: Capabilities where
  "emptyCapabilities =
     \<lparr>PublicReads = False, Reads = False, Writes = False, Listings = False, DirectReads = False\<rparr>"

text \<open>
  A \<^verbatim>\<open>float64\<close> is only stored and handed on by the code below, never computed with.
  The finite values are reals; the three special values that \<^verbatim>\<open>strconv.ParseFloat\<close>
  can also deliver are constructors of their own.
\<close>

datatype float64 = Float real | NaN | PosInf | NegInf

text \<open>
  A \<^verbatim>\<open>url.URL\<close> is represented by the string that \<^verbatim>\<open>URL.String()\<close> gives for it;
  the zero value \<^verbatim>\<open>url.URL{}\<close> prints as the empty string.
\<close>

type_synonym url = string

definition emptyURL :: url where
  "emptyURL = []"

text \<open>
  \<^verbatim>\<open>server_structs.ServerAd\<close>, with the fields that the director code in this
  development reads or writes. Functions that only copy an advertisement are stated over
  the record scheme, so that they cover every further field of the struct as well.
\<close>

record ServerAd =
  Name :: string
  Type :: string
  URL :: url
  AuthURL :: url
  WebURL :: url
  Caps :: Capabilities
  FromTopology :: bool
  IOLoad :: float64

definition emptyServerAd :: ServerAd where
  "emptyServerAd =
     \<lparr>Name = [], Type = [], URL = emptyURL, AuthURL = emptyURL, WebURL = emptyURL,
      Caps = emptyCapabilities, FromTopology = False, IOLoad = Float 0\<rparr>"

text \<open>
  \<^verbatim>\<open>consolidateDupServerAd(newAd, existingAd)\<close>: the result starts as a copy of
  \<^verbatim>\<open>existingAd\<close>; each capability is then overwritten by the disjunction of the two
  advertisements' capabilities.
\<close>

definition consolidateDupServerAd ::
  "'a ServerAd_scheme \<Rightarrow> 'a ServerAd_scheme \<Rightarrow> 'a ServerAd_scheme" where
  "consolidateDupServerAd newAd existingAd =
     (let consolidatedAd = existingAd;
          consolidatedAd = consolidatedAd\<lparr>Caps := (Caps consolidatedAd)
            \<lparr>DirectReads := DirectReads (Caps existingAd) \<or> DirectReads (Caps newAd)\<rparr>\<rparr>;
          consolidatedAd = consolidatedAd\<lparr>Caps := (Caps consolidatedAd)
            \<lparr>PublicReads := PublicReads (Caps existingAd) \<or> PublicReads (Caps newAd)\<rparr>\<rparr>;
          consolidatedAd = consolidatedAd\<lparr>Caps := (Caps consolidatedAd)
            \<lparr>Reads := Reads (Caps existingAd) \<or> Reads (Caps newAd)\<rparr>\<rparr>;
          consolidatedAd = consolidatedAd\<lparr>Caps := (Caps consolidatedAd)
            \<lparr>Writes := Writes (Caps existingAd) \<or> Writes (Caps newAd)\<rparr>\<rparr>;
          consolidatedAd = consolidatedAd\<lparr>Caps := (Caps consolidatedAd)
            \<lparr>Listings := Listings (Caps existingAd) \<or> Listings (Caps newAd)\<rparr>\<rparr>
      in consolidatedAd)"


section \<open>The filter registry (director_api.go)\<close>

text \<open>
  Modelled from the spec: the states of a filter entry (section 3). \<^verbatim>\<open>filterType\<close> is
  a string type with six named constants, declared in a file of the package that is not
  among the source files. The constants are the labels of one \<^verbatim>\<open>switch\<close>, so they are
  pairwise distinct; each is a constructor here. Every other string value, the empty string
  included, is an \<open>otherFilter\<close>; the empty string is assumed to be none of the six
  constants.
\<close>

datatype filterType =
    permFiltered
  | tempFiltered
  | topoFiltered
  | serverFiltered
  | shutdownFiltered
  | tempAllowed
  | otherFilter string

text \<open>What the functions below write to the log.\<close>

datatype logEntry =
    UnknownFilterType filterType
  | BadStartTime string string
  | BadEndTime string string
  | BadCreatedTime string string
  | BadUpdateTime string string
  | BadClass string string
  | BadSeverity string string
  | DowntimeListError string

text \<open>
  \<^verbatim>\<open>checkFilter(serverName)\<close> reads the global map \<^verbatim>\<open>filteredServers\<close>, which is an
  argument here. The result is the pair that the Go function returns, together with the
  lines it logs.
\<close>

definition checkFilter ::
  "(string \<rightharpoonup> filterType) \<Rightarrow> string \<Rightarrow> (bool \<times> filterType) \<times> logEntry list" where
  "checkFilter filteredServers serverName =
     (case filteredServers serverName of
        None \<Rightarrow> ((False, otherFilter []), [])
      | Some status \<Rightarrow>
          (case status of
             permFiltered \<Rightarrow> ((True, permFiltered), [])
           | tempFiltered \<Rightarrow> ((True, tempFiltered), [])
           | topoFiltered \<Rightarrow> ((True, topoFiltered), [])
           | serverFiltered \<Rightarrow> ((True, serverFiltered), [])
           | shutdownFiltered \<Rightarrow> ((True, shutdownFiltered), [])
           | tempAllowed \<Rightarrow> ((False, tempAllowed), [])
           | otherFilter s \<Rightarrow> ((False, otherFilter []), [UnknownFilterType status])))"

section \<open>Downtimes from the topology feed (advertise.go)\<close>

text \<open>
  An instant (\<^verbatim>\<open>time.Time\<close>) is a number of nanoseconds since the Unix epoch;
  \<^verbatim>\<open>After\<close> and \<^verbatim>\<open>Before\<close> are the strict orders, and \<^verbatim>\<open>UnixMilli\<close> rounds down.
\<close>

type_synonym time = int

definition UnixMilli :: "time \<Rightarrow> int" where
  "UnixMilli t = t div 1000000"

definition timeLayout :: string where
  "timeLayout = ''Jan 2, 2006 15:04 PM MST''"

text \<open>One downtime element of the XML feed; every field is text.\<close>

record TopoServerDowntime =
  ResourceName :: string
  StartTime :: string
  EndTime :: string
  CreatedTime :: string
  UpdateTime :: string
  Class :: string
  Severity :: string
  Description :: string

record TopoDowntimeInfo =
  CurrentDowntimes :: "TopoServerDowntime list"
  FutureDowntimes :: "TopoServerDowntime list"

datatype Class = SCHEDULED | UNSCHEDULED

datatype Severity = Outage | Severe | IntermittentOutage | NoSignificantOutageExpected

text \<open>\<^verbatim>\<open>server_structs.Downtime\<close>, the parsed record; times are in milliseconds.\<close>

record Downtime =
  ServerName :: string
  Class :: Class
  Severity :: Severity
  Source :: string
  StartTime :: int
  EndTime :: int
  Description :: string
  CreatedAt :: int
  UpdatedAt :: int

text \<open>
  An error is its message; \<^verbatim>\<open>errors.Wrap(err, msg)\<close> puts \<open>msg\<close> and a colon in
  front of the message of \<open>err\<close>.
\<close>

type_synonym error = string

definition Wrap :: "error \<Rightarrow> string \<Rightarrow> error" where
  "Wrap err msg = msg @ '': '' @ err"

text \<open>
  The two global tables of the director that the topology import writes, and the
  warnings and errors logged. Functions over these tables are stated over the record
  scheme: its extension stands for the rest of the director's global state, such as the
  store of advertisements.
\<close>

record registry =
  filteredServers :: "string \<rightharpoonup> filterType"
  topologyDowntimes :: "string \<rightharpoonup> Downtime list"
  logged :: "logEntry list"

text \<open>
  Everything outside the program that \<^verbatim>\<open>updateDowntimeFromTopology\<close> consults: the
  configured downtime URL, \<^verbatim>\<open>url.Parse\<close>, the HTTP request, \<^verbatim>\<open>xml.Unmarshal\<close>,
  \<^verbatim>\<open>time.Parse\<close> and the clock. A call that can fail returns \<open>Inl\<close> of its error.
\<close>

record downtimeEnv =
  Federation_TopologyDowntimeUrl :: string
  urlParse :: "string \<Rightarrow> error + url"
  MakeRequest :: "string \<Rightarrow> error + string"
  xmlUnmarshal :: "string \<Rightarrow> error + TopoDowntimeInfo"
  timeParse :: "string \<Rightarrow> string \<Rightarrow> error + time"
  timeNow :: time

text \<open>The first loop: delete every entry whose value is \<^verbatim>\<open>topoFiltered\<close>.\<close>

definition purgeTopoFiltered :: "(string \<rightharpoonup> filterType) \<Rightarrow> (string \<rightharpoonup> filterType)" where
  "purgeTopoFiltered fs = (\<lambda>key. if fs key = Some topoFiltered then None else fs key)"

definition parseClass :: "string \<Rightarrow> Class option" where
  "parseClass c =
     (if c = ''SCHEDULED'' then Some SCHEDULED
      else if c = ''UNSCHEDULED'' then Some UNSCHEDULED
      else None)"

definition parseSeverity :: "string \<Rightarrow> Severity option" where
  "parseSeverity s =
     (if prefix ''Outage'' s then Some Outage
      else if prefix ''Severe'' s then Some Severe
      else if prefix ''Intermittent'' s then Some IntermittentOutage
      else if prefix ''No'' s then Some NoSignificantOutageExpected
      else None)"

text \<open>
  The state of the second loop: the filter map, the map \<^verbatim>\<open>latestTopologyDowntimes\<close>
  under construction, and the warnings so far.
\<close>

record importState =
  filtered :: "string \<rightharpoonup> filterType"
  latest :: "string \<rightharpoonup> Downtime list"
  warnings :: "logEntry list"

definition warn :: "logEntry \<Rightarrow> importState \<Rightarrow> importState" where
  "warn w st = st\<lparr>warnings := warnings st @ [w]\<rparr>"

text \<open>
  The filter update of an active downtime: the entry becomes \<^verbatim>\<open>topoFiltered\<close> unless the
  server has an entry other than \<^verbatim>\<open>tempAllowed\<close>.
\<close>

definition markActive :: "string \<Rightarrow> (string \<rightharpoonup> filterType) \<Rightarrow> (string \<rightharpoonup> filterType)" where
  "markActive name fs =
     (let hasOriginalFilter = (fs name \<noteq> None);
          originalFilterType = fs name
      in if \<not> (hasOriginalFilter \<and> originalFilterType \<noteq> Some tempAllowed)
         then fs(name \<mapsto> topoFiltered)
         else fs)"

text \<open>
  The part of the loop body that builds the \<^verbatim>\<open>Downtime\<close> record, reached when the end
  time lies in the future. Each \<^verbatim>\<open>continue\<close> leaves the state as it is at that point.
\<close>

definition recordDowntime ::
  "'e downtimeEnv_scheme \<Rightarrow> TopoServerDowntime \<Rightarrow> time \<Rightarrow> time \<Rightarrow> importState \<Rightarrow> importState" where
  "recordDowntime env downtime parsedStartDT parsedEndDT st =
     (let name = ResourceName downtime in
      case timeParse env timeLayout (CreatedTime downtime) of
        Inl err \<Rightarrow> warn (BadCreatedTime name (CreatedTime downtime)) st
      | Inr parsedCreatedTime \<Rightarrow>
     (case timeParse env timeLayout (UpdateTime downtime) of
        Inl err \<Rightarrow> warn (BadUpdateTime name (UpdateTime downtime)) st
      | Inr parsedUpdateTime \<Rightarrow>
     (case parseClass (TopoServerDowntime.Class downtime) of
        None \<Rightarrow> warn (BadClass name (TopoServerDowntime.Class downtime)) st
      | Some parsedClass \<Rightarrow>
     (case parseSeverity (TopoServerDowntime.Severity downtime) of
        None \<Rightarrow> warn (BadSeverity name (TopoServerDowntime.Severity downtime)) st
      | Some parsedSeverity \<Rightarrow>
          (let dtRecord =
                 \<lparr>ServerName = name,
                  Class = parsedClass,
                  Severity = parsedSeverity,
                  Source = ''topology'',
                  StartTime = UnixMilli parsedStartDT,
                  EndTime = UnixMilli parsedEndDT,
                  Description = TopoServerDowntime.Description downtime,
                  CreatedAt = UnixMilli parsedCreatedTime,
                  UpdatedAt = UnixMilli parsedUpdateTime\<rparr>
           in st\<lparr>latest := (latest st)
                  (name \<mapsto> (case latest st name of None \<Rightarrow> [] | Some ds \<Rightarrow> ds) @ [dtRecord])\<rparr>)))))"

text \<open>The body of the loop over the fetched downtimes, for one element.\<close>

definition importDowntime ::
  "'e downtimeEnv_scheme \<Rightarrow> TopoServerDowntime \<Rightarrow> importState \<Rightarrow> importState" where
  "importDowntime env downtime st =
     (let name = ResourceName downtime; currentTime = timeNow env in
      case timeParse env timeLayout (TopoServerDowntime.StartTime downtime) of
        Inl err \<Rightarrow> warn (BadStartTime name (TopoServerDowntime.StartTime downtime)) st
      | Inr parsedStartDT \<Rightarrow>
     (case timeParse env timeLayout (TopoServerDowntime.EndTime downtime) of
        Inl err \<Rightarrow> warn (BadEndTime name (TopoServerDowntime.EndTime downtime)) st
      | Inr parsedEndDT \<Rightarrow>
          if currentTime < parsedEndDT
          then recordDowntime env downtime parsedStartDT parsedEndDT
                 (if parsedStartDT < currentTime
                  then st\<lparr>filtered := markActive name (filtered st)\<rparr>
                  else st)
          else st))"

fun importDowntimes ::
  "'e downtimeEnv_scheme \<Rightarrow> TopoServerDowntime list \<Rightarrow> importState \<Rightarrow> importState" where
  "importDowntimes env [] st = st"
| "importDowntimes env (downtime # rest) st = importDowntimes env rest (importDowntime env downtime st)"

text \<open>
  \<^verbatim>\<open>updateDowntimeFromTopology\<close>: the three early returns, then the purge, the loop and
  the replacement of \<^verbatim>\<open>topologyDowntimes\<close>. The result is the returned error, if any,
  and the tables afterwards.
\<close>

definition updateDowntimeFromTopology ::
  "'e downtimeEnv_scheme \<Rightarrow> 's registry_scheme \<Rightarrow> error option \<times> 's registry_scheme" where
  "updateDowntimeFromTopology env reg =
     (let dtUrlStr = Federation_TopologyDowntimeUrl env in
      case urlParse env dtUrlStr of
        Inl err \<Rightarrow>
          (Some (Wrap err (''encountered an invalid URL '' @ dtUrlStr @
                           '' when parsing configured topology downtime URL'')), reg)
      | Inr u \<Rightarrow>
     (case MakeRequest env dtUrlStr of
        Inl err \<Rightarrow> (Some (Wrap err (''failed to fetch topology downtime from '' @ dtUrlStr)), reg)
      | Inr resp \<Rightarrow>
     (case xmlUnmarshal env resp of
        Inl err \<Rightarrow> (Some (Wrap err ''failed to unmarshal topology downtime XML''), reg)
      | Inr downtimeInfo \<Rightarrow>
          (let fetchedTopologyDowntimes = CurrentDowntimes downtimeInfo @ FutureDowntimes downtimeInfo;
               st = importDowntimes env fetchedTopologyDowntimes
                      \<lparr>filtered = purgeTopoFiltered (filteredServers reg),
                       latest = Map.empty,
                       warnings = []\<rparr>
           in (None, reg\<lparr>filteredServers := filtered st,
                         topologyDowntimes := latest st,
                         logged := logged reg @ warnings st\<rparr>)))))"

section \<open>Advertisements from the topology manifest (advertise.go)\<close>

text \<open>
  Modelled from the spec: the kind of a server (section 3). \<^verbatim>\<open>server_structs.ServerType\<close>
  is declared outside the source files; its six constants are those that the test
  utilities of the repository name. Its \<^verbatim>\<open>String\<close> method is a field of the
  environment below.
\<close>

datatype ServerType =
  CacheType | OriginType | DirectorType | RegistryType | BrokerType | LocalCacheType

record TopoServer =
  Resource :: string
  Endpoint :: string
  AuthEndpoint :: string

record TokenGen =
  Strategy :: string
  VaultServer :: string
  MaxScopeDepth :: nat
  CredentialIssuer :: url

definition emptyTokenGen :: TokenGen where
  "emptyTokenGen = \<lparr>Strategy = [], VaultServer = [], MaxScopeDepth = 0, CredentialIssuer = emptyURL\<rparr>"

record TokenIssuer =
  BasePaths :: "string list"
  RestrictedPaths :: "string list"
  IssuerUrl :: url

record NamespaceAdV2 =
  Path :: string
  Caps :: Capabilities
  Generation :: "TokenGen list"
  Issuer :: "TokenIssuer list"
  FromTopology :: bool

text \<open>An advertisement is a server advertisement together with its namespaces.\<close>

record Advertisement =
  ServerAd :: ServerAd
  NamespaceAds :: "NamespaceAdV2 list"

text \<open>The namespaces of the topology manifest, as \<^verbatim>\<open>GetTopologyJSON\<close> returns them.\<close>

record TopoCredentialGeneration =
  Issuer :: string
  Strategy :: string
  VaultServer :: string
  MaxScopeDepth :: int

record TopoScitokens =
  Issuer :: string
  BasePath :: "string list"
  Restricted :: "string list"

record TopoNamespace =
  Path :: string
  UseTokenOnRead :: bool
  ReadHTTPS :: bool
  WritebackHost :: string
  DirlistHost :: string
  CredentialGeneration :: TopoCredentialGeneration
  Scitokens :: "TopoScitokens list"
  Origins :: "TopoServer list"
  Caches :: "TopoServer list"

record TopologyNamespacesJSON =
  Namespaces :: "TopoNamespace list"

text \<open>
  The environment of \<^verbatim>\<open>AdvertiseOSDF\<close> extends that of the downtime import by the
  manifest request, the three configuration switches, the \<^verbatim>\<open>String\<close> method of
  \<^verbatim>\<open>ServerType\<close> and the function \<^verbatim>\<open>recordAd\<close>, which lives in another file of the
  package and acts on the director's global state.
\<close>

record 's topologyEnv = downtimeEnv +
  GetTopologyJSON :: "error + TopologyNamespacesJSON"
  Topology_DisableDowntime :: bool
  Topology_DisableOrigins :: bool
  Topology_DisableCaches :: bool
  ServerType_String :: "ServerType \<Rightarrow> string"
  recordAd :: "ServerAd \<Rightarrow> NamespaceAdV2 list \<Rightarrow> 's \<Rightarrow> 's"

text \<open>
  \<^verbatim>\<open>parseServerAdFromTopology(server, serverType, caps)\<close>. An endpoint without the prefix
  \<^verbatim>\<open>http\<close> gets a scheme in front before it is parsed; a URL that does not parse
  leaves the zero URL.
\<close>

definition parseServerAdFromTopology ::
  "('s, 'e) topologyEnv_scheme \<Rightarrow> TopoServer \<Rightarrow> ServerType \<Rightarrow> Capabilities \<Rightarrow> ServerAd" where
  "parseServerAdFromTopology env server serverType caps =
     (let serverAd = emptyServerAd;
          serverAd = serverAd\<lparr>Type := ServerType_String env serverType\<rparr>;
          serverAd = serverAd\<lparr>Name := Resource server\<rparr>;
          serverAd = serverAd\<lparr>IOLoad := Float 0\<rparr>;
          serverAd =
            (if Type serverAd = ServerType_String env CacheType
             then (let serverAd = serverAd\<lparr>ServerAd.Caps := emptyCapabilities\<rparr>;
                       serverAd = serverAd\<lparr>ServerAd.Caps := (ServerAd.Caps serverAd)\<lparr>Writes := False\<rparr>\<rparr>;
                       serverAd = serverAd\<lparr>ServerAd.Caps := (ServerAd.Caps serverAd)\<lparr>Listings := False\<rparr>\<rparr>;
                       serverAd = serverAd\<lparr>ServerAd.Caps := (ServerAd.Caps serverAd)\<lparr>DirectReads := False\<rparr>\<rparr>;
                       serverAd = serverAd\<lparr>ServerAd.Caps := (ServerAd.Caps serverAd)\<lparr>PublicReads := True\<rparr>\<rparr>
                   in serverAd)
             else serverAd\<lparr>ServerAd.Caps := caps\<rparr>);
          serverAd = serverAd\<lparr>ServerAd.FromTopology := True\<rparr>;
          endpoint = (if \<not> prefix ''http'' (Endpoint server)
                      then ''http://'' @ Endpoint server else Endpoint server);
          serverAd = (case urlParse env endpoint of
                        Inr serverUrl \<Rightarrow> serverAd\<lparr>URL := serverUrl\<rparr>
                      | Inl err \<Rightarrow> serverAd\<lparr>URL := emptyURL\<rparr>);
          serverAd =
            (if AuthEndpoint server \<noteq> []
             then (let authEndpoint = (if \<not> prefix ''http'' (AuthEndpoint server)
                                        then ''https://'' @ AuthEndpoint server
                                        else AuthEndpoint server)
                   in case urlParse env authEndpoint of
                        Inr serverAuthUrl \<Rightarrow> serverAd\<lparr>AuthURL := serverAuthUrl\<rparr>
                      | Inl err \<Rightarrow> serverAd\<lparr>AuthURL := emptyURL\<rparr>)
             else serverAd)
      in serverAd)"

text \<open>
  The maps \<^verbatim>\<open>originAdMap\<close> and \<^verbatim>\<open>cacheAdMap\<close> are association lists keyed by the URL
  of the server, in the order in which the keys were first stored. A server whose URL is
  already a key adds its namespace to the stored advertisement, which is consolidated
  with the new one; any other server opens a new entry.
\<close>

type_synonym adMap = "(string \<times> Advertisement) list"

definition addToAdMap :: "ServerAd \<Rightarrow> NamespaceAdV2 \<Rightarrow> adMap \<Rightarrow> adMap" where
  "addToAdMap ad nsAd m =
     (case map_of m (URL ad) of
        Some existingAd \<Rightarrow>
          (let existingAd = existingAd\<lparr>NamespaceAds := NamespaceAds existingAd @ [nsAd]\<rparr>;
               consolidatedAd = consolidateDupServerAd ad (ServerAd existingAd);
               existingAd = existingAd\<lparr>ServerAd := consolidatedAd\<rparr>
           in AList.update (URL ad) existingAd m)
      | None \<Rightarrow> m @ [(URL ad, \<lparr>ServerAd = ad, NamespaceAds = [nsAd]\<rparr>)])"

fun addServers ::
  "('s, 'e) topologyEnv_scheme \<Rightarrow> ServerType \<Rightarrow> Capabilities \<Rightarrow> NamespaceAdV2 \<Rightarrow>
   TopoServer list \<Rightarrow> adMap \<Rightarrow> adMap" where
  "addServers env serverType caps nsAd [] m = m"
| "addServers env serverType caps nsAd (server # rest) m =
     addServers env serverType caps nsAd rest
       (addToAdMap (parseServerAdFromTopology env server serverType caps) nsAd m)"

text \<open>The inner loop over the token entries of a namespace.\<close>

fun collectIssuers ::
  "('s, 'e) topologyEnv_scheme \<Rightarrow> TopoScitokens list \<Rightarrow> TokenIssuer list \<Rightarrow> TokenIssuer list" where
  "collectIssuers env [] tokenIssuers = tokenIssuers"
| "collectIssuers env (scitok # rest) tokenIssuers =
     (case urlParse env (TopoScitokens.Issuer scitok) of
        Inl err \<Rightarrow> collectIssuers env rest tokenIssuers
      | Inr issuer \<Rightarrow>
          collectIssuers env rest
            (tokenIssuers @
               [\<lparr>BasePaths = BasePath scitok, RestrictedPaths = Restricted scitok,
                 IssuerUrl = issuer\<rparr>]))"

text \<open>
  The state of the loop over the namespaces: the variable \<^verbatim>\<open>tGen\<close>, which is declared
  before the loop and keeps its fields from one namespace to the next, and the two maps.
  The conversion \<^verbatim>\<open>uint(MaxScopeDepth)\<close> of a 64-bit integer wraps around.
\<close>

record namespaceLoop =
  tGen :: TokenGen
  originAdMap :: adMap
  cacheAdMap :: adMap

definition finishNamespace ::
  "('s, 'e) topologyEnv_scheme \<Rightarrow> TopoNamespace \<Rightarrow> TokenIssuer list \<Rightarrow> namespaceLoop \<Rightarrow> namespaceLoop" where
  "finishNamespace env ns tokenIssuers st =
     (let write = (WritebackHost ns \<noteq> []);
          listings = (DirlistHost ns \<noteq> []);
          caps = \<lparr>PublicReads = \<not> UseTokenOnRead ns, Reads = ReadHTTPS ns, Writes = write,
                  Listings = listings, DirectReads = True\<rparr>;
          nsAd = \<lparr>NamespaceAdV2.Path = TopoNamespace.Path ns, NamespaceAdV2.Caps = caps,
                  Generation = [tGen st], NamespaceAdV2.Issuer = tokenIssuers,
                  NamespaceAdV2.FromTopology = True\<rparr>;
          st = (if \<not> Topology_DisableOrigins env
                then st\<lparr>originAdMap := addServers env OriginType caps nsAd (Origins ns) (originAdMap st)\<rparr>
                else st);
          st = (if \<not> Topology_DisableCaches env
                then st\<lparr>cacheAdMap :=
                          addServers env CacheType emptyCapabilities nsAd (Caches ns) (cacheAdMap st)\<rparr>
                else st)
      in st)"

definition importNamespace ::
  "('s, 'e) topologyEnv_scheme \<Rightarrow> TopoNamespace \<Rightarrow> namespaceLoop \<Rightarrow> namespaceLoop" where
  "importNamespace env ns st =
     (let requireToken = UseTokenOnRead ns in
      if requireToken
      then (case urlParse env (TopoCredentialGeneration.Issuer (CredentialGeneration ns)) of
              Inl err \<Rightarrow> st
            | Inr credIssuer \<Rightarrow>
                (let gen = CredentialGeneration ns;
                     st = st\<lparr>tGen :=
                            \<lparr>TokenGen.Strategy = TopoCredentialGeneration.Strategy gen,
                             TokenGen.VaultServer = TopoCredentialGeneration.VaultServer gen,
                             TokenGen.MaxScopeDepth =
                               nat (TopoCredentialGeneration.MaxScopeDepth gen mod 2 ^ 64),
                             CredentialIssuer = credIssuer\<rparr>\<rparr>
                 in finishNamespace env ns (collectIssuers env (Scitokens ns) []) st))
      else finishNamespace env ns [] st)"

fun importNamespaces ::
  "('s, 'e) topologyEnv_scheme \<Rightarrow> TopoNamespace list \<Rightarrow> namespaceLoop \<Rightarrow> namespaceLoop" where
  "importNamespaces env [] st = st"
| "importNamespaces env (ns # rest) st = importNamespaces env rest (importNamespace env ns st)"

fun recordAds :: "('s, 'e) topologyEnv_scheme \<Rightarrow> adMap \<Rightarrow> 's \<Rightarrow> 's" where
  "recordAds env [] s = s"
| "recordAds env ((key, ad) # rest) s =
     recordAds env rest (recordAd env (ServerAd ad) (NamespaceAds ad) s)"

text \<open>
  \<^verbatim>\<open>AdvertiseOSDF\<close>. A failure of the downtime import is logged and does not stop the
  import of the advertisements.
\<close>

definition AdvertiseOSDF ::
  "('r registry_scheme, 'e) topologyEnv_scheme \<Rightarrow> 'r registry_scheme \<Rightarrow>
   error option \<times> 'r registry_scheme" where
  "AdvertiseOSDF env s =
     (case GetTopologyJSON env of
        Inl err \<Rightarrow> (Some (Wrap err ''Failed to get topology JSON''), s)
      | Inr namespaces \<Rightarrow>
          (let (err, s) = (if \<not> Topology_DisableDowntime env
                           then updateDowntimeFromTopology env s
                           else (None, s));
               s = (case err of
                      Some e \<Rightarrow> s\<lparr>logged := logged s @ [DowntimeListError e]\<rparr>
                    | None \<Rightarrow> s);
               st = importNamespaces env (Namespaces namespaces)
                      \<lparr>tGen = emptyTokenGen, originAdMap = [], cacheAdMap = []\<rparr>;
               s = recordAds env (originAdMap st) s;
               s = recordAds env (cacheAdMap st) s
           in (None, s)))"

section \<open>The store of advertisements and its users (director_api.go)\<close>

text \<open>
  Modelled from the spec: the Ad Store of sections 2 and 4.1, a map of advertisements
  with an expiry time for each entry and hooks for insertion and eviction, whose lookup
  has the touch on hit semantics named in section 4.6. The store is the global
  \<^verbatim>\<open>serverAds\<close>, an instance of a cache library that is not among the source files.
  An entry holds the advertisement, its lifetime and the instant at which it expires;
  a lifetime that is not positive means that the entry never expires. The entries are
  kept as an association list with one entry for each key.
\<close>

record Item =
  itemValue :: Advertisement
  ttl :: int
  expiresAt :: time

type_synonym adStore = "(string \<times> Item) list"

text \<open>
  Modelled from the spec: an entry with a positive lifetime is expired once the clock has
  passed its expiry (section 3).
\<close>

definition isExpired :: "Item \<Rightarrow> time \<Rightarrow> bool" where
  "isExpired item now = (0 < ttl item \<and> expiresAt item < now)"

text \<open>
  Modelled from the spec: the lookup of the Ad Store. An absent or expired entry is a
  miss. A hit returns the entry; unless touch on hit is disabled, a hit on an entry with
  a positive lifetime also moves its expiry to one lifetime after the lookup.
\<close>

definition storeGet :: "bool \<Rightarrow> time \<Rightarrow> string \<Rightarrow> adStore \<Rightarrow> Item option \<times> adStore" where
  "storeGet disableTouchOnHit now key store =
     (case map_of store key of
        None \<Rightarrow> (None, store)
      | Some item \<Rightarrow>
          if isExpired item now then (None, store)
          else if \<not> disableTouchOnHit \<and> 0 < ttl item
          then (let touched = item\<lparr>expiresAt := now + ttl item\<rparr>
                in (Some touched, AList.update key touched store))
          else (Some item, store))"

text \<open>
  Modelled from the spec: \<^verbatim>\<open>SetIOLoad\<close>, the setter of section 4.6 for the field
  \<open>io_load\<close> of an advertisement; it is declared with the advertisement, outside the
  source files.
\<close>

definition SetIOLoad :: "float64 \<Rightarrow> Advertisement \<Rightarrow> Advertisement" where
  "SetIOLoad load ad = ad\<lparr>ServerAd := (ServerAd ad)\<lparr>IOLoad := load\<rparr>\<rparr>"

subsection \<open>The I/O load scraper\<close>

text \<open>
  The answer of the metrics backend: a result type and rows, each with a map of labels,
  whose values need not be strings, and a list of sampled values.
\<close>

datatype labelValue = StringValue string | OtherValue

record promSample =
  Value :: string

record promResult =
  Metric :: "string \<rightharpoonup> labelValue"
  Values :: "promSample list"

record promQueryResult =
  ResultType :: string
  Result :: "promResult list"

record scraperEnv =
  QueryMyPrometheus :: "error + promQueryResult"
  ParseFloat :: "string \<Rightarrow> error + float64"
  scrapeTime :: time

text \<open>
  The body of the loop over the rows, for one row. The index expression
  \<^verbatim>\<open>result.Values[0]\<close> panics on a row without values; the panic is the \<open>Inl\<close> result.
  The advertisement is looked up with touch on hit disabled and is updated in place.
\<close>

definition updateIOLoad :: "scraperEnv \<Rightarrow> promResult \<Rightarrow> adStore \<Rightarrow> error + adStore" where
  "updateIOLoad env result store =
     (case Metric result ''server_url'' of
        None \<Rightarrow> Inr store
      | Some OtherValue \<Rightarrow> Inr store
      | Some (StringValue serverUrl) \<Rightarrow>
          (case Values result of
             [] \<Rightarrow> Inl ''index out of range [0] with length 0''
           | first # others \<Rightarrow>
               (let ioDerivStr = Value first in
                if ioDerivStr = [] then Inr store
                else (case ParseFloat env ioDerivStr of
                        Inl err \<Rightarrow> Inr store
                      | Inr ioDeriv \<Rightarrow>
                          (case storeGet True (scrapeTime env) serverUrl store of
                             (None, store) \<Rightarrow> Inr store
                           | (Some serverAd, store) \<Rightarrow>
                               Inr (AList.update serverUrl
                                      (serverAd\<lparr>itemValue := SetIOLoad ioDeriv (itemValue serverAd)\<rparr>)
                                      store))))))"

text \<open>
  The loop over the rows. A panic ends it; the store is then as the rows before left it.
\<close>

fun updateIOLoads :: "scraperEnv \<Rightarrow> promResult list \<Rightarrow> adStore \<Rightarrow> error option \<times> adStore" where
  "updateIOLoads env [] store = (None, store)"
| "updateIOLoads env (result # rest) store =
     (case updateIOLoad env result store of
        Inl panic \<Rightarrow> (Some panic, store)
      | Inr store \<Rightarrow> updateIOLoads env rest store)"

text \<open>One round of \<^verbatim>\<open>serverIOQueryLoop\<close>, run at each tick of its timer.\<close>

definition serverIOQueryRound :: "scraperEnv \<Rightarrow> adStore \<Rightarrow> error option \<times> adStore" where
  "serverIOQueryRound env store =
     (case QueryMyPrometheus env of
        Inl err \<Rightarrow> (None, store)
      | Inr queryResult \<Rightarrow>
          if ResultType queryResult \<noteq> ''vector'' then (None, store)
          else updateIOLoads env (Result queryResult) store)"

subsection \<open>The hooks of the server count\<close>












section \<open>Path prefixes of monitored paths (package metrics)\<close>

text \<open>
  Modelled from the spec: the components of a path (section 4.7) are the pieces between
  its slashes; the component before the leading slash is the empty root component.
\<close>

fun splitPath :: "string \<Rightarrow> string list" where
  "splitPath [] = [[]]"
| "splitPath (c # cs) =
     (if c = CHR ''/'' then [] # splitPath cs
      else (case splitPath cs of
              [] \<Rightarrow> [[c]]
            | w # ws \<Rightarrow> (c # w) # ws))"

text \<open>
  Modelled from the spec: the type \<^verbatim>\<open>PathList\<close> of the test, a list of mount components,
  and the number of leading components of a mount prefix that match the components of the
  path one after the other; the component \<open>*\<close> matches every component.
\<close>

record PathList =
  Paths :: "string list"

fun matchingComponents :: "string list \<Rightarrow> string list \<Rightarrow> nat" where
  "matchingComponents (p # ps) (s # ss) =
     (if s = p \<or> p = ''*'' then Suc (matchingComponents ps ss) else 0)"
| "matchingComponents ps ss = 0"

text \<open>
  Modelled from the spec: \<^verbatim>\<open>computePrefix\<close>, the path-component prefix function of
  section 4.7; of the function only the test \<^verbatim>\<open>TestComputePaths\<close> is among the source
  files. For mount prefix components, where the empty component is the root and \<open>*\<close> a
  wildcard, it computes the deepest consecutive match with the components of the object
  path, over all configured mount prefixes, and returns the matched part of the path; a
  match of the root alone is the path \<open>/\<close>.
\<close>

definition computePrefix :: "string \<Rightarrow> PathList list \<Rightarrow> string" where
  "computePrefix inputPath monitorPaths =
     (let segments = splitPath inputPath;
          maxlen = fold (\<lambda>pathList m. max m (matchingComponents (Paths pathList) segments - 1))
                     monitorPaths 0
      in if maxlen = 0 then ''/''
         else concat (map (\<lambda>segment. ''/'' @ segment) (take maxlen (tl segments))))"

section \<open>Notions used in the properties, and example inputs\<close>

text \<open>
  A downtime of the feed is currently active when its start and end times parse and the
  clock lies strictly between them: these are the two comparisons under which the import
  touches the filter map.
\<close>

definition currentlyActive :: "'e downtimeEnv_scheme \<Rightarrow> TopoServerDowntime \<Rightarrow> bool" where
  "currentlyActive env downtime =
     (case timeParse env timeLayout (TopoServerDowntime.StartTime downtime) of
        Inl err \<Rightarrow> False
      | Inr parsedStartDT \<Rightarrow>
          (case timeParse env timeLayout (TopoServerDowntime.EndTime downtime) of
             Inl err \<Rightarrow> False
           | Inr parsedEndDT \<Rightarrow> parsedStartDT < timeNow env \<and> timeNow env < parsedEndDT))"

text \<open>
  An example environment: the clock stands at noon of 2 January 2024, three time strings
  parse, and the downtime request answers with a given feed.
\<close>

definition exampleTimeParse :: "string \<Rightarrow> string \<Rightarrow> error + time" where
  "exampleTimeParse layout v =
     (if v = ''Jan 1, 2024 00:00 AM UTC'' then Inr 1704067200000000000
      else if v = ''Jan 3, 2024 00:00 AM UTC'' then Inr 1704240000000000000
      else if v = ''Jan 5, 2024 00:00 AM UTC'' then Inr 1704412800000000000
      else Inl ''cannot parse time'')"

definition exampleEnv :: "TopoDowntimeInfo \<Rightarrow> downtimeEnv" where
  "exampleEnv feed =
     \<lparr>Federation_TopologyDowntimeUrl = ''https://topology.example.org/downtime'',
      urlParse = (\<lambda>u. Inr u),
      MakeRequest = (\<lambda>u. Inr ''<Downtimes/>''),
      xmlUnmarshal = (\<lambda>resp. Inr feed),
      timeParse = exampleTimeParse,
      timeNow = 1704196800000000000\<rparr>"

definition exampleDowntime :: "string \<Rightarrow> string \<Rightarrow> string \<Rightarrow> TopoServerDowntime" where
  "exampleDowntime name start end =
     \<lparr>ResourceName = name,
      StartTime = start,
      EndTime = end,
      CreatedTime = ''Jan 1, 2024 00:00 AM UTC'',
      UpdateTime = ''Jan 1, 2024 00:00 AM UTC'',
      Class = ''SCHEDULED'',
      Severity = ''Outage (completely inaccessible)'',
      Description = ''maintenance''\<rparr>"

definition activeDowntime :: "string \<Rightarrow> TopoServerDowntime" where
  "activeDowntime name =
     exampleDowntime name ''Jan 1, 2024 00:00 AM UTC'' ''Jan 3, 2024 00:00 AM UTC''"


definition exampleFeed :: "TopoServerDowntime list \<Rightarrow> TopoServerDowntime list \<Rightarrow> TopoDowntimeInfo" where
  "exampleFeed current future = \<lparr>CurrentDowntimes = current, FutureDowntimes = future\<rparr>"

definition exampleRegistry :: "(string \<rightharpoonup> filterType) \<Rightarrow> registry" where
  "exampleRegistry fs = \<lparr>filteredServers = fs, topologyDowntimes = Map.empty, logged = []\<rparr>"

definition exampleTopologyEnv ::
  "error + TopologyNamespacesJSON \<Rightarrow> TopoDowntimeInfo \<Rightarrow> (registry, unit) topologyEnv_scheme" where
  "exampleTopologyEnv manifest feed =
     downtimeEnv.extend (exampleEnv feed)
       (topologyEnv.fields manifest False False False
          (\<lambda>t. if t = CacheType then ''Cache'' else ''Origin'')
          (\<lambda>ad nsAds s. s))"




section \<open>Properties\<close>

subsection \<open>Consolidation of advertisements with the same URL\<close>

lemma addToAdMap_collision:
  assumes "map_of m (URL ad) = Some existingAd"
  shows "map_of (addToAdMap ad nsAd m) (URL ad) =
           Some \<lparr>ServerAd = consolidateDupServerAd ad (ServerAd existingAd),
                 NamespaceAds = NamespaceAds existingAd @ [nsAd]\<rparr>"
  using assms by (simp add: addToAdMap_def Let_def update_conv')

text \<open>
  Claim C1. When the topology import meets a server whose URL is already a key of its
  map, the stored advertisement is replaced by \<open>consolidateDupServerAd\<close> of the new and
  the stored one (lemma \<open>addToAdMap_collision\<close>). Each of the five capabilities of that
  result is the disjunction of the capabilities of the two advertisements, and every
  other field, those of the rest of the struct included, is the field of the existing
  advertisement.
\<close>

theorem consolidateDupServerAd_merge:
  "PublicReads (ServerAd.Caps (consolidateDupServerAd newAd existingAd)) =
     (PublicReads (ServerAd.Caps existingAd) \<or> PublicReads (ServerAd.Caps newAd))
   \<and> Reads (ServerAd.Caps (consolidateDupServerAd newAd existingAd)) =
     (Reads (ServerAd.Caps existingAd) \<or> Reads (ServerAd.Caps newAd))
   \<and> Writes (ServerAd.Caps (consolidateDupServerAd newAd existingAd)) =
     (Writes (ServerAd.Caps existingAd) \<or> Writes (ServerAd.Caps newAd))
   \<and> Listings (ServerAd.Caps (consolidateDupServerAd newAd existingAd)) =
     (Listings (ServerAd.Caps existingAd) \<or> Listings (ServerAd.Caps newAd))
   \<and> DirectReads (ServerAd.Caps (consolidateDupServerAd newAd existingAd)) =
     (DirectReads (ServerAd.Caps existingAd) \<or> DirectReads (ServerAd.Caps newAd))
   \<and> Name (consolidateDupServerAd newAd existingAd) = Name existingAd
   \<and> Type (consolidateDupServerAd newAd existingAd) = Type existingAd
   \<and> URL (consolidateDupServerAd newAd existingAd) = URL existingAd
   \<and> AuthURL (consolidateDupServerAd newAd existingAd) = AuthURL existingAd
   \<and> WebURL (consolidateDupServerAd newAd existingAd) = WebURL existingAd
   \<and> ServerAd.FromTopology (consolidateDupServerAd newAd existingAd) = ServerAd.FromTopology existingAd
   \<and> IOLoad (consolidateDupServerAd newAd existingAd) = IOLoad existingAd
   \<and> ServerAd.more (consolidateDupServerAd newAd existingAd) = ServerAd.more existingAd"
  by (simp add: consolidateDupServerAd_def Let_def)

subsection \<open>The result of the filter check\<close>

text \<open>
  Claim C4. The result of \<open>checkFilter\<close> for a server depends only on the entry of the
  server in the map. The server is excluded exactly when the entry is one of
  \<open>permFiltered\<close>, \<open>tempFiltered\<close>, \<open>topoFiltered\<close>, \<open>serverFiltered\<close> and
  \<open>shutdownFiltered\<close>, and the reason returned is then the entry. The server is not
  excluded when it has no entry, when the entry is \<open>tempAllowed\<close>, and when the entry
  is any other value, which is logged as an error and otherwise ignored.
\<close>

theorem checkFilter_result:
  "(fst (fst (checkFilter fs name)) \<longleftrightarrow>
      fs name \<in> Some ` {permFiltered, tempFiltered, topoFiltered, serverFiltered, shutdownFiltered})
   \<and> (fst (fst (checkFilter fs name)) \<longrightarrow> fs name = Some (snd (fst (checkFilter fs name))))
   \<and> (fs name = None \<longrightarrow> \<not> fst (fst (checkFilter fs name)))
   \<and> (fs name = Some tempAllowed \<longrightarrow> fst (checkFilter fs name) = (False, tempAllowed))
   \<and> (\<forall>s. fs name = Some (otherFilter s) \<longrightarrow>
          checkFilter fs name = ((False, otherFilter []), [UnknownFilterType (otherFilter s)]))
   \<and> (\<forall>fs'. fs' name = fs name \<longrightarrow> checkFilter fs' name = checkFilter fs name)"
  by (auto simp: checkFilter_def split: option.splits filterType.splits)

theorem checkFilter_result_witness:
  "fst (checkFilter [''cache-1'' \<mapsto> topoFiltered] ''cache-1'') = (True, topoFiltered)
   \<and> \<not> fst (fst (checkFilter Map.empty ''cache-1''))
   \<and> fst (checkFilter [''cache-1'' \<mapsto> tempAllowed] ''cache-1'') = (False, tempAllowed)
   \<and> checkFilter [''cache-1'' \<mapsto> otherFilter ''paused''] ''cache-1'' =
       ((False, otherFilter []), [UnknownFilterType (otherFilter ''paused'')])
   \<and> checkFilter [''cache-1'' \<mapsto> permFiltered, ''cache-2'' \<mapsto> tempFiltered] ''cache-1'' =
       checkFilter [''cache-1'' \<mapsto> permFiltered] ''cache-1''"
  using checkFilter_result [of "[''cache-1'' \<mapsto> topoFiltered]" "''cache-1''"]
        checkFilter_result [of Map.empty "''cache-1''"]
        checkFilter_result [of "[''cache-1'' \<mapsto> tempAllowed]" "''cache-1''"]
        checkFilter_result [of "[''cache-1'' \<mapsto> otherFilter ''paused'']" "''cache-1''"]
        checkFilter_result [of "[''cache-1'' \<mapsto> permFiltered]" "''cache-1''"]
  by (simp add: checkFilter_def)

subsection \<open>Advertisements of caches\<close>

text \<open>
  Claim C9. For a server that the manifest lists as a cache, the advertisement that
  \<open>parseServerAdFromTopology\<close> builds has the capabilities \<open>Writes\<close>, \<open>Listings\<close> and
  \<open>DirectReads\<close> cleared and \<open>PublicReads\<close> set, whatever capabilities are passed
  in. Every advertisement it builds, for whatever type of server, has \<open>FromTopology\<close>
  set and an I/O load of zero.
\<close>

theorem parseServerAdFromTopology_cache:
  "Writes (ServerAd.Caps (parseServerAdFromTopology env server CacheType caps)) = False
   \<and> Listings (ServerAd.Caps (parseServerAdFromTopology env server CacheType caps)) = False
   \<and> DirectReads (ServerAd.Caps (parseServerAdFromTopology env server CacheType caps)) = False
   \<and> PublicReads (ServerAd.Caps (parseServerAdFromTopology env server CacheType caps)) = True
   \<and> ServerAd.FromTopology (parseServerAdFromTopology env server serverType caps) = True
   \<and> IOLoad (parseServerAdFromTopology env server serverType caps) = Float 0"
  by (simp add: parseServerAdFromTopology_def Let_def emptyServerAd_def emptyCapabilities_def
           split: sum.splits)

subsection \<open>The table of path prefixes\<close>

text \<open>
  Claim C5. On the seven cases of the test \<open>TestComputePaths\<close>, six of which are the
  table of section 4.7 of the specification, \<open>computePrefix\<close> returns the string that
  the test expects.
\<close>

theorem computePrefix_table:
  "computePrefix ''/foo'' [\<lparr>Paths = ['''', ''*'']\<rparr>] = ''/foo''
   \<and> computePrefix ''/foo'' [\<lparr>Paths = ['''', ''baz'']\<rparr>] = ''/''
   \<and> computePrefix ''/foo'' [\<lparr>Paths = ['''', '''']\<rparr>] = ''/''
   \<and> computePrefix ''/foo'' [\<lparr>Paths = ['''', ''foo'']\<rparr>] = ''/foo''
   \<and> computePrefix ''/foo/bar/baz'' [\<lparr>Paths = ['''', ''foo'', ''*'', ''baz'']\<rparr>] = ''/foo/bar/baz''
   \<and> computePrefix ''/foo/bar/baz''
        [\<lparr>Paths = ['''', ''1'']\<rparr>, \<lparr>Paths = ['''', ''foo'', ''*'', ''baz'']\<rparr>] = ''/foo/bar/baz''
   \<and> computePrefix ''/foo/bar/baz'' [\<lparr>Paths = ['''', ''foo'', ''*'', ''*'']\<rparr>] = ''/foo/bar/baz''"
  by (simp add: computePrefix_def)

subsection \<open>The filter map under the import of downtimes\<close>

text \<open>
  Only an active downtime changes the filter map, and it does so through \<open>markActive\<close>;
  the lemmas follow an entry of the map through the loop.
\<close>

lemma filtered_warn: "filtered (warn w st) = filtered st"
  by (simp add: warn_def)

lemma latest_warn: "latest (warn w st) = latest st"
  by (simp add: warn_def)

lemma filtered_recordDowntime:
  "filtered (recordDowntime env d s e st) = filtered st"
  by (simp add: recordDowntime_def Let_def filtered_warn split: sum.splits option.splits)

lemma filtered_importDowntime:
  "filtered (importDowntime env d st) =
     (if currentlyActive env d then markActive (ResourceName d) (filtered st) else filtered st)"
  by (simp add: importDowntime_def currentlyActive_def Let_def filtered_warn
                filtered_recordDowntime split: sum.splits)


lemma markActive_keeps:
  "fs name = Some t \<Longrightarrow> t \<noteq> tempAllowed \<Longrightarrow> markActive n fs name = Some t"
  by (cases "name = n") (simp_all add: markActive_def Let_def)

lemma importDowntimes_keeps:
  "filtered st name = Some t \<Longrightarrow> t \<noteq> tempAllowed \<Longrightarrow>
     filtered (importDowntimes env ds st) name = Some t"
  by (induction ds arbitrary: st) (simp_all add: filtered_importDowntime markActive_keeps)

lemma markActive_cases:
  "markActive n fs name = fs name \<or> (n = name \<and> markActive n fs name = Some topoFiltered)"
  by (simp add: markActive_def Let_def)


lemma markActive_overrides:
  "fs name = None \<or> fs name = Some tempAllowed \<or> fs name = Some topoFiltered \<Longrightarrow>
     markActive name fs name = Some topoFiltered"
  by (auto simp: markActive_def Let_def)

lemma markActive_weak:
  "fs name = None \<or> fs name = Some tempAllowed \<or> fs name = Some topoFiltered \<Longrightarrow>
     markActive n fs name = None \<or> markActive n fs name = Some tempAllowed
       \<or> markActive n fs name = Some topoFiltered"
  using markActive_cases [of n fs name] by auto

lemma importDowntimes_sets_topo:
  "d \<in> set ds \<Longrightarrow> currentlyActive env d \<Longrightarrow>
   filtered st (ResourceName d) = None \<or> filtered st (ResourceName d) = Some tempAllowed
     \<or> filtered st (ResourceName d) = Some topoFiltered \<Longrightarrow>
   filtered (importDowntimes env ds st) (ResourceName d) = Some topoFiltered"
proof (induction ds arbitrary: st)
  case Nil
  then show ?case by simp
next
  case (Cons d' ds)
  show ?case
  proof (cases "d' = d")
    case True
    with Cons.prems have "filtered (importDowntime env d' st) (ResourceName d) = Some topoFiltered"
      by (simp add: filtered_importDowntime markActive_overrides)
    then show ?thesis
      by (simp add: importDowntimes_keeps)
  next
    case False
    with Cons.prems have in_rest: "d \<in> set ds" by simp
    have "filtered (importDowntime env d' st) (ResourceName d) = None
          \<or> filtered (importDowntime env d' st) (ResourceName d) = Some tempAllowed
          \<or> filtered (importDowntime env d' st) (ResourceName d) = Some topoFiltered"
      using Cons.prems(3) markActive_weak [of "filtered st" "ResourceName d" "ResourceName d'"]
      by (simp add: filtered_importDowntime)
    from Cons.IH [OF in_rest Cons.prems(2) this] show ?thesis by simp
  qed
qed

lemma updateDowntimeFromTopology_fetched:
  assumes "urlParse env (Federation_TopologyDowntimeUrl env) = Inr u"
      and "MakeRequest env (Federation_TopologyDowntimeUrl env) = Inr resp"
      and "xmlUnmarshal env resp = Inr info"
  shows "filteredServers (snd (updateDowntimeFromTopology env reg)) =
           filtered (importDowntimes env (CurrentDowntimes info @ FutureDowntimes info)
             \<lparr>filtered = purgeTopoFiltered (filteredServers reg), latest = Map.empty, warnings = []\<rparr>)"
  using assms by (simp add: updateDowntimeFromTopology_def Let_def)



text \<open>
  Claim C2 says that an entry \<open>tempAllowed\<close> keeps a server in routing when an active
  downtime for it is imported. The import treats such an entry like a missing one: in
  the example the entry of \<open>origin-1\<close> is \<open>tempAllowed\<close>, the feed holds an active
  downtime for it, and afterwards \<open>checkFilter\<close> excludes the server.
\<close>

theorem temp_allowed_counterexample:
  "filteredServers (exampleRegistry [''origin-1'' \<mapsto> tempAllowed]) ''origin-1'' = Some tempAllowed
   \<and> currentlyActive (exampleEnv (exampleFeed [activeDowntime ''origin-1''] []))
        (activeDowntime ''origin-1'')
   \<and> fst (checkFilter
        (filteredServers
           (snd (updateDowntimeFromTopology
                   (exampleEnv (exampleFeed [activeDowntime ''origin-1''] []))
                   (exampleRegistry [''origin-1'' \<mapsto> tempAllowed]))))
        ''origin-1'') = (True, topoFiltered)"
  by (simp add: exampleRegistry_def exampleEnv_def exampleFeed_def activeDowntime_def
                exampleDowntime_def currentlyActive_def exampleTimeParse_def
                updateDowntimeFromTopology_def importDowntime_def recordDowntime_def
                markActive_def purgeTopoFiltered_def checkFilter_def Let_def timeLayout_def
                parseClass_def parseSeverity_def)

text \<open>
  Claim C2, amended. For a server whose entry is \<open>tempAllowed\<close>, the import of a feed
  with a currently active downtime for that server replaces the entry by
  \<open>topoFiltered\<close>, and \<open>checkFilter\<close> then reports the server as excluded, with the
  reason \<open>topoFiltered\<close>.
\<close>

theorem temp_allowed_overridden:
  assumes "urlParse env (Federation_TopologyDowntimeUrl env) = Inr u"
      and "MakeRequest env (Federation_TopologyDowntimeUrl env) = Inr resp"
      and "xmlUnmarshal env resp = Inr info"
      and "filteredServers reg (ResourceName d) = Some tempAllowed"
      and "d \<in> set (CurrentDowntimes info @ FutureDowntimes info)"
      and "currentlyActive env d"
  shows "fst (checkFilter (filteredServers (snd (updateDowntimeFromTopology env reg)))
               (ResourceName d)) = (True, topoFiltered)"
proof -
  let ?init = "\<lparr>filtered = purgeTopoFiltered (filteredServers reg), latest = Map.empty, warnings = []\<rparr>"
  have "filtered ?init (ResourceName d) = Some tempAllowed"
    using assms(4) by (simp add: purgeTopoFiltered_def)
  then have "filtered (importDowntimes env (CurrentDowntimes info @ FutureDowntimes info) ?init)
               (ResourceName d) = Some topoFiltered"
    using importDowntimes_sets_topo [OF assms(5) assms(6), of ?init] by simp
  then show ?thesis
    unfolding updateDowntimeFromTopology_fetched [OF assms(1-3)]
    by (simp add: checkFilter_def)
qed

theorem temp_allowed_overridden_witness:
  "fst (checkFilter
        (filteredServers
           (snd (updateDowntimeFromTopology
                   (exampleEnv (exampleFeed [activeDowntime ''cache-2''] []))
                   (exampleRegistry [''cache-2'' \<mapsto> tempAllowed]))))
        (ResourceName (activeDowntime ''cache-2''))) = (True, topoFiltered)"
proof -
  let ?feed = "exampleFeed [activeDowntime ''cache-2''] []"
  let ?env = "exampleEnv ?feed"
  let ?reg = "exampleRegistry [''cache-2'' \<mapsto> tempAllowed]"
  have u: "urlParse ?env (Federation_TopologyDowntimeUrl ?env) = Inr ''https://topology.example.org/downtime''"
    by (simp add: exampleEnv_def)
  have r: "MakeRequest ?env (Federation_TopologyDowntimeUrl ?env) = Inr ''<Downtimes/>''"
    by (simp add: exampleEnv_def)
  have x: "xmlUnmarshal ?env ''<Downtimes/>'' = Inr ?feed"
    by (simp add: exampleEnv_def)
  have e: "filteredServers ?reg (ResourceName (activeDowntime ''cache-2'')) = Some tempAllowed"
    by (simp add: exampleRegistry_def activeDowntime_def exampleDowntime_def)
  have m: "activeDowntime ''cache-2'' \<in> set (CurrentDowntimes ?feed @ FutureDowntimes ?feed)"
    by (simp add: exampleFeed_def)
  have a: "currentlyActive ?env (activeDowntime ''cache-2'')"
    by (simp add: currentlyActive_def exampleEnv_def activeDowntime_def exampleDowntime_def
                  exampleTimeParse_def)
  show ?thesis by (rule temp_allowed_overridden [OF u r x e m a])
qed

subsection \<open>Downtimes whose times do not parse\<close>

text \<open>
  Claim C6 says that a downtime with any time that does not parse sets no filter entry.
  The created and update times are parsed after the filter map has been written: in the
  example the created time of an active downtime does not parse, the server has no entry
  before the import and is \<open>topoFiltered\<close> after it.
\<close>

theorem created_time_counterexample:
  "timeParse (exampleEnv (exampleFeed [(activeDowntime ''origin-1'')\<lparr>CreatedTime := ''Not Available''\<rparr>] []))
     timeLayout (CreatedTime ((activeDowntime ''origin-1'')\<lparr>CreatedTime := ''Not Available''\<rparr>))
     = Inl ''cannot parse time''
   \<and> filteredServers (exampleRegistry Map.empty) ''origin-1'' = None
   \<and> filteredServers
        (snd (updateDowntimeFromTopology
                (exampleEnv (exampleFeed [(activeDowntime ''origin-1'')\<lparr>CreatedTime := ''Not Available''\<rparr>] []))
                (exampleRegistry Map.empty)))
        ''origin-1'' = Some topoFiltered"
  by (simp add: exampleRegistry_def exampleEnv_def exampleFeed_def activeDowntime_def
                exampleDowntime_def exampleTimeParse_def
                updateDowntimeFromTopology_def importDowntime_def recordDowntime_def
                markActive_def purgeTopoFiltered_def Let_def timeLayout_def warn_def)

text \<open>
  Claim C6, amended. A downtime whose start time or end time does not parse is skipped
  with a warning and changes neither the filter map nor the table of downtimes. A
  downtime whose created time or update time does not parse adds no entry to the table
  of downtimes; its effect on the filter map is that of its start and end times alone.
\<close>

theorem unparsed_time_skips:
  "(isl (timeParse env timeLayout (TopoServerDowntime.StartTime d))
      \<or> isl (timeParse env timeLayout (TopoServerDowntime.EndTime d)) \<longrightarrow>
      filtered (importDowntime env d st) = filtered st
      \<and> latest (importDowntime env d st) = latest st
      \<and> warnings (importDowntime env d st) =
          warnings st @
            [if isl (timeParse env timeLayout (TopoServerDowntime.StartTime d))
             then BadStartTime (ResourceName d) (TopoServerDowntime.StartTime d)
             else BadEndTime (ResourceName d) (TopoServerDowntime.EndTime d)])
   \<and> (isl (timeParse env timeLayout (CreatedTime d))
      \<or> isl (timeParse env timeLayout (UpdateTime d)) \<longrightarrow>
      latest (importDowntime env d st) = latest st
      \<and> filtered (importDowntime env d st) =
          (if currentlyActive env d then markActive (ResourceName d) (filtered st)
           else filtered st))"
  by (auto simp: importDowntime_def recordDowntime_def currentlyActive_def warn_def Let_def
           split: sum.splits)

theorem unparsed_time_skips_witness:
  "importDowntime (exampleEnv (exampleFeed [] []))
     (exampleDowntime ''origin-1'' ''yesterday'' ''Jan 3, 2024 00:00 AM UTC'')
     \<lparr>filtered = Map.empty, latest = Map.empty, warnings = []\<rparr> =
   \<lparr>filtered = Map.empty, latest = Map.empty,
    warnings = [BadStartTime ''origin-1'' ''yesterday'']\<rparr>
   \<and> latest (importDowntime (exampleEnv (exampleFeed [] []))
        ((activeDowntime ''origin-1'')\<lparr>UpdateTime := ''Not Available''\<rparr>)
        \<lparr>filtered = Map.empty, latest = Map.empty, warnings = []\<rparr>) = Map.empty"
  using unparsed_time_skips [of "exampleEnv (exampleFeed [] [])"
          "exampleDowntime ''origin-1'' ''yesterday'' ''Jan 3, 2024 00:00 AM UTC''"
          "\<lparr>filtered = Map.empty, latest = Map.empty, warnings = []\<rparr>"]
        unparsed_time_skips [of "exampleEnv (exampleFeed [] [])"
          "(activeDowntime ''origin-1'')\<lparr>UpdateTime := ''Not Available''\<rparr>"
          "\<lparr>filtered = Map.empty, latest = Map.empty, warnings = []\<rparr>"]
  by (simp add: exampleEnv_def exampleDowntime_def activeDowntime_def exampleTimeParse_def
                timeLayout_def)


subsection \<open>Failures of the topology requests\<close>

text \<open>
  Claim C7. When the request for the topology manifest fails, \<open>AdvertiseOSDF\<close>
  returns an error and the state of the director is as before. When the request for the
  downtime feed fails, or its answer cannot be unmarshalled,
  \<open>updateDowntimeFromTopology\<close> returns an error and the filter map and the table of
  downtimes are as before: nothing has been purged.
\<close>

theorem topology_failure_keeps_state:
  "(isl (GetTopologyJSON env) \<longrightarrow>
      fst (AdvertiseOSDF env s) \<noteq> None \<and> snd (AdvertiseOSDF env s) = s)
   \<and> (isl (MakeRequest denv (Federation_TopologyDowntimeUrl denv)) \<longrightarrow>
      fst (updateDowntimeFromTopology denv reg) \<noteq> None
      \<and> snd (updateDowntimeFromTopology denv reg) = reg)
   \<and> (\<forall>resp. MakeRequest denv (Federation_TopologyDowntimeUrl denv) = Inr resp
             \<and> isl (xmlUnmarshal denv resp) \<longrightarrow>
      fst (updateDowntimeFromTopology denv reg) \<noteq> None
      \<and> snd (updateDowntimeFromTopology denv reg) = reg)"
  by (auto simp: AdvertiseOSDF_def updateDowntimeFromTopology_def Let_def split: sum.splits)

theorem topology_failure_keeps_state_witness:
  "AdvertiseOSDF (exampleTopologyEnv (Inl ''connection refused'') (exampleFeed [] []))
     (exampleRegistry [''origin-1'' \<mapsto> topoFiltered]) =
     (Some ''Failed to get topology JSON: connection refused'',
      exampleRegistry [''origin-1'' \<mapsto> topoFiltered])
   \<and> updateDowntimeFromTopology
       ((exampleEnv (exampleFeed [] []))\<lparr>MakeRequest := \<lambda>u. Inl ''connection refused''\<rparr>)
       (exampleRegistry [''origin-1'' \<mapsto> topoFiltered]) =
     (Some ''failed to fetch topology downtime from https://topology.example.org/downtime: connection refused'',
      exampleRegistry [''origin-1'' \<mapsto> topoFiltered])
   \<and> snd (updateDowntimeFromTopology
       ((exampleEnv (exampleFeed [] []))\<lparr>xmlUnmarshal := \<lambda>resp. Inl ''unexpected EOF''\<rparr>)
       (exampleRegistry [''origin-1'' \<mapsto> topoFiltered])) =
      exampleRegistry [''origin-1'' \<mapsto> topoFiltered]"
  using topology_failure_keeps_state
          [of "exampleTopologyEnv (Inl ''connection refused'') (exampleFeed [] [])"
              "exampleRegistry [''origin-1'' \<mapsto> topoFiltered]"
              "(exampleEnv (exampleFeed [] []))\<lparr>MakeRequest := \<lambda>u. Inl ''connection refused''\<rparr>"
              "exampleRegistry [''origin-1'' \<mapsto> topoFiltered]"]
        topology_failure_keeps_state
          [of "exampleTopologyEnv (Inl ''connection refused'') (exampleFeed [] [])"
              "exampleRegistry [''origin-1'' \<mapsto> topoFiltered]"
              "(exampleEnv (exampleFeed [] []))\<lparr>xmlUnmarshal := \<lambda>resp. Inl ''unexpected EOF''\<rparr>"
              "exampleRegistry [''origin-1'' \<mapsto> topoFiltered]"]
  by (simp add: exampleTopologyEnv_def exampleEnv_def AdvertiseOSDF_def
                updateDowntimeFromTopology_def Wrap_def downtimeEnv.defs topologyEnv.defs)

subsection \<open>The scraper leaves the expiry of every entry alone\<close>

text \<open>
  A round of the scraper changes the store only by \<open>SetIOLoad\<close> on entries that it
  holds; a function of the entries that does not see the I/O load has the same values
  before and after.
\<close>

lemma map_update_same:
  "map_of xs k = Some v \<Longrightarrow> f (k, v') = f (k, v) \<Longrightarrow> map f (AList.update k v' xs) = map f xs"
  by (induction xs) (auto split: if_splits)

lemma map_update_same_sym:
  "Some v = map_of xs k \<Longrightarrow> f (k, v') = f (k, v) \<Longrightarrow> map f (AList.update k v' xs) = map f xs"
  using map_update_same [of xs k v f v'] by simp

lemma storeGet_no_touch:
  "storeGet True now key store = (r, store') \<Longrightarrow>
     store' = store \<and> (r = None \<or> r = map_of store key)"
  by (auto simp: storeGet_def split: option.splits if_splits)

lemma updateIOLoad_frame:
  assumes "updateIOLoad env result store = Inr store'"
      and "\<And>key item load. f (key, item\<lparr>itemValue := SetIOLoad load (itemValue item)\<rparr>) = f (key, item)"
  shows "map f store' = map f store"
proof (cases "storeGet True (scrapeTime env) (case Metric result ''server_url'' of Some (StringValue u) \<Rightarrow> u | _ \<Rightarrow> []) store")
  case (Pair r s)
  from storeGet_no_touch [OF Pair] have s: "s = store"
    and r: "r = None \<or> r = map_of store (case Metric result ''server_url'' of Some (StringValue u) \<Rightarrow> u | _ \<Rightarrow> [])"
    by simp_all
  from assms(1) Pair s r show ?thesis
    by (auto simp: updateIOLoad_def Let_def map_update_same map_update_same_sym assms(2)
             split: option.splits labelValue.splits list.splits if_splits sum.splits)
qed

lemma updateIOLoads_frame:
  assumes "\<And>key item load. f (key, item\<lparr>itemValue := SetIOLoad load (itemValue item)\<rparr>) = f (key, item)"
  shows "map f (snd (updateIOLoads env results store)) = map f store"
proof (induction results arbitrary: store)
  case Nil
  show ?case by simp
next
  case (Cons result results)
  show ?case
  proof (cases "updateIOLoad env result store")
    case (Inl panic)
    then show ?thesis by simp
  next
    case (Inr store')
    with Cons.IH [of store'] updateIOLoad_frame [OF Inr, of f] assms
    show ?thesis by simp
  qed
qed

lemma serverIOQueryRound_frame:
  assumes "\<And>key item load. f (key, item\<lparr>itemValue := SetIOLoad load (itemValue item)\<rparr>) = f (key, item)"
  shows "map f (snd (serverIOQueryRound env store)) = map f store"
  using updateIOLoads_frame [of f, OF assms]
  by (simp add: serverIOQueryRound_def split: sum.splits)

text \<open>
  With touch on hit enabled, a hit on an entry with a positive lifetime would move its
  expiry.
\<close>

lemma storeGet_touch_moves_expiry:
  "map_of store key = Some item \<Longrightarrow> \<not> isExpired item now \<Longrightarrow> 0 < ttl item \<Longrightarrow>
     map_of (snd (storeGet False now key store)) key = Some (item\<lparr>expiresAt := now + ttl item\<rparr>)"
  by (simp add: storeGet_def Let_def update_conv')

text \<open>
  Claim C8. The scraper looks advertisements up with touch on hit disabled. After a
  round of the scraper, whatever the metrics backend answered and also when the round
  ended in a panic, the store has the same keys in the same order, every entry has the
  expiry and the lifetime it had before, and every advertisement is the one before up to
  its I/O load. So the scraper cannot extend the life of the entry of a dead server.
\<close>

theorem scraper_keeps_expiry:
  "map fst (snd (serverIOQueryRound env store)) = map fst store
   \<and> map (\<lambda>(key, item). expiresAt item) (snd (serverIOQueryRound env store)) =
       map (\<lambda>(key, item). expiresAt item) store
   \<and> map (\<lambda>(key, item). ttl item) (snd (serverIOQueryRound env store)) =
       map (\<lambda>(key, item). ttl item) store
   \<and> map (\<lambda>(key, item). SetIOLoad (Float 0) (itemValue item)) (snd (serverIOQueryRound env store)) =
       map (\<lambda>(key, item). SetIOLoad (Float 0) (itemValue item)) store"
proof -
  have "map fst (snd (serverIOQueryRound env store)) = map fst store"
    by (rule serverIOQueryRound_frame) simp
  moreover have "map (\<lambda>(key, item). expiresAt item) (snd (serverIOQueryRound env store)) =
       map (\<lambda>(key, item). expiresAt item) store"
    by (rule serverIOQueryRound_frame) simp
  moreover have "map (\<lambda>(key, item). ttl item) (snd (serverIOQueryRound env store)) =
       map (\<lambda>(key, item). ttl item) store"
    by (rule serverIOQueryRound_frame) simp
  moreover have "map (\<lambda>(key, item). SetIOLoad (Float 0) (itemValue item)) (snd (serverIOQueryRound env store)) =
       map (\<lambda>(key, item). SetIOLoad (Float 0) (itemValue item)) store"
    by (rule serverIOQueryRound_frame) (simp add: SetIOLoad_def)
  ultimately show ?thesis by simp
qed


subsection \<open>The server count follows the store\<close>







end
